theory Spec2Isabelle
  imports Main "HOL-Library.Word"
begin

section \<open>ImApp: pixels, images, the GPU texture handle and the layer stack\<close>

text \<open>
  A shallow embedding of \<^verbatim>\<open>include/ImApp/imapp.hpp\<close> and \<^verbatim>\<open>src/imapp.cpp\<close>.
  \<^verbatim>\<open>std::uint8_t\<close> and \<^verbatim>\<open>std::uint32_t\<close> are words, so that arithmetic wraps as in C++.
  \<^verbatim>\<open>std::vector<Pixel>\<close> is a list, \<^verbatim>\<open>std::optional\<close> is \<open>option\<close>, exceptions are the
  left summand of a sum type. Calls into OpenGL, GLFW, Dear ImGui, stb_image and the file
  system are recorded, in order, in a log that the functions thread through.
\<close>

type_synonym uint8 = "8 word"
type_synonym uint32 = "32 word"

subsection \<open>Pixel\<close>

text \<open>
  A private data member \<^verbatim>\<open>x_\<close> of the C++ classes is the record field \<open>m_x\<close>
  (a name cannot end with an underscore here).
\<close>

record Pixel =
  m_r :: uint8
  m_g :: uint8
  m_b :: uint8
  m_a :: uint8

text \<open>\<^verbatim>\<open>Pixel() : r_(255), g_(255), b_(255), a_(255) {}\<close>\<close>

definition Pixel_default :: Pixel where
  "Pixel_default = \<lparr>m_r = 255, m_g = 255, m_b = 255, m_a = 255\<rparr>"

text \<open>\<^verbatim>\<open>Pixel(R, G, B, A = 255)\<close>\<close>

definition Pixel_rgba :: "uint8 \<Rightarrow> uint8 \<Rightarrow> uint8 \<Rightarrow> uint8 \<Rightarrow> Pixel" where
  "Pixel_rgba R G B A = \<lparr>m_r = R, m_g = G, m_b = B, m_a = A\<rparr>"

subsection \<open>Errors\<close>

text \<open>
  The two exception classes the library throws, each with its message; the
  \<^verbatim>\<open>std::filesystem::filesystem_error\<close> that the standard library throws and the library
  lets through, with the text of its \<^verbatim>\<open>what()\<close>; and the undefined behaviour of an
  unchecked \<^verbatim>\<open>std::vector::operator[]\<close> beyond the end of the vector.
\<close>

datatype error =
  Out_of_range string
  | Runtime_error string
  | Filesystem_error string
  | Undefined_behaviour

subsection \<open>The operations of std::vector that Image uses\<close>

text \<open>
  \<^verbatim>\<open>std::vector<T>(n, value)\<close> holds \<open>n\<close> copies of \<open>value\<close>.
  \<^verbatim>\<open>v.resize(n)\<close> keeps the first \<open>n\<close> elements when the vector shrinks, and when it grows
  appends default-inserted elements, that is elements built by the default constructor
  of \<open>T\<close>, here passed as \<open>d\<close>. \<^verbatim>\<open>v[i]\<close> is defined only for \<open>i < v.size()\<close>.
\<close>

definition vector_fill :: "nat \<Rightarrow> 'a \<Rightarrow> 'a list" where
  "vector_fill n v = replicate n v"

definition vector_resize :: "'a \<Rightarrow> nat \<Rightarrow> 'a list \<Rightarrow> 'a list" where
  "vector_resize d n v = (if n \<le> length v then take n v else v @ replicate (n - length v) d)"

definition vector_index :: "'a list \<Rightarrow> nat \<Rightarrow> error + 'a" where
  "vector_index v i = (if i < length v then Inr (v ! i) else Inl Undefined_behaviour)"

subsection \<open>Image\<close>

record Image =
  m_height :: uint32
  m_width :: uint32
  m_image :: "Pixel list"
  m_ogl_texture_id :: "uint32 option"

text \<open>
  \<^verbatim>\<open>Image(height, width) : height_(height), width_(width),
      image_(height_ * width_, Pixel()), ogl_texture_id_(std::nullopt) {}\<close>
  The product is taken in \<^verbatim>\<open>std::uint32_t\<close> and then widened to \<^verbatim>\<open>std::size_t\<close>.
\<close>

definition Image_new :: "uint32 \<Rightarrow> uint32 \<Rightarrow> Image" where
  "Image_new height width =
     \<lparr>m_height = height, m_width = width,
      m_image = vector_fill (unat (height * width)) Pixel_default,
      m_ogl_texture_id = None\<rparr>"

text \<open>The accessors \<^verbatim>\<open>width()\<close>, \<^verbatim>\<open>height()\<close>, \<^verbatim>\<open>on_gpu()\<close> and \<^verbatim>\<open>ogl_texture_id()\<close>.\<close>

definition Image_width :: "Image \<Rightarrow> uint32" where
  "Image_width img = m_width img"

definition Image_height :: "Image \<Rightarrow> uint32" where
  "Image_height img = m_height img"

definition Image_on_gpu :: "Image \<Rightarrow> bool" where
  "Image_on_gpu img = (m_ogl_texture_id img \<noteq> None)"

definition Image_ogl_texture_id :: "Image \<Rightarrow> uint32 option" where
  "Image_ogl_texture_id img = m_ogl_texture_id img"

text \<open>\<^verbatim>\<open>std::uint32_t size() const { return width_ * height_; }\<close>\<close>

definition Image_size :: "Image \<Rightarrow> uint32" where
  "Image_size img = m_width img * m_height img"

text \<open>
  \<^verbatim>\<open>operator[](std::size_t i)\<close>, read and write: the unchecked linear access.
\<close>

definition Image_index :: "Image \<Rightarrow> nat \<Rightarrow> error + Pixel" where
  "Image_index img i = vector_index (m_image img) i"

definition Image_index_put :: "Image \<Rightarrow> nat \<Rightarrow> Pixel \<Rightarrow> error + Image" where
  "Image_index_put img i p =
     (if i < length (m_image img) then Inr (img\<lparr>m_image := (m_image img)[i := p]\<rparr>)
      else Inl Undefined_behaviour)"

text \<open>
  \<^verbatim>\<open>operator()(h, w)\<close>: unchecked row and column access,
  \<^verbatim>\<open>std::size_t i = w + (h * width_); return image_[i];\<close>
  The index is computed in \<^verbatim>\<open>std::uint32_t\<close> before it is widened.
\<close>

definition Image_call :: "Image \<Rightarrow> uint32 \<Rightarrow> uint32 \<Rightarrow> error + Pixel" where
  "Image_call img h w = vector_index (m_image img) (unat (w + h * m_width img))"

text \<open>
  \<^verbatim>\<open>at(h, w)\<close>, the const and the non-const overload have the same body: the row is
  checked first, then the column, then the pixel is read as in \<^verbatim>\<open>operator()\<close>.
\<close>

definition Image_at :: "Image \<Rightarrow> uint32 \<Rightarrow> uint32 \<Rightarrow> error + Pixel" where
  "Image_at img h w =
     (if h \<ge> m_height img then Inl (Out_of_range ''ImApp::Image::at: h must be < height.'')
      else if w \<ge> m_width img then Inl (Out_of_range ''ImApp::Image::at: w must be < width.'')
      else vector_index (m_image img) (unat (w + h * m_width img)))"

text \<open>
  \<^verbatim>\<open>void resize(height, width) { height_ = height; width_ = width;
      image_.resize(height_ * width_); }\<close>
\<close>

definition Image_resize :: "Image \<Rightarrow> uint32 \<Rightarrow> uint32 \<Rightarrow> Image" where
  "Image_resize img height width =
     img\<lparr>m_height := height, m_width := width,
         m_image := vector_resize Pixel_default (unat (height * width)) (m_image img)\<rparr>"

subsection \<open>Decoding a file\<close>

text \<open>
  The file system and the codec are outside the library. \<open>fs_exists\<close> is the outcome of
  \<^verbatim>\<open>std::filesystem::exists(fname)\<close>, the overload that throws: it returns true or false,
  or it throws when the status of the path cannot be determined (a loop of symbolic
  links, a directory that may not be searched, a name that is too long), and then the
  outcome is \<open>Inl\<close> of the exception. \<open>fs_stbi_load\<close> is the answer of \<^verbatim>\<open>stbi_load\<close> with four
  channels requested: either \<^verbatim>\<open>NULL\<close>, and then \<^verbatim>\<open>stbi_failure_reason()\<close> returns the
  given text, or a pointer to the decoded pixels together with the width and the height
  written into the two \<^verbatim>\<open>int\<close> variables. The pointer is a function of the offset.
\<close>

datatype stbi_result =
  Stbi_null string
  | Stbi_data int int "nat \<Rightarrow> Pixel"

record filesystem =
  fs_exists :: "string \<Rightarrow> error + bool"
  fs_stbi_load :: "string \<Rightarrow> stbi_result"

text \<open>The calls \<^verbatim>\<open>from_file\<close> makes outside the library, in the order it makes them.\<close>

datatype io_call =
  Std_filesystem_exists string
  | Stbi_load string
  | Stbi_failure_reason
  | Stbi_image_free

definition dquote :: char where
  "dquote = CHR 0x22"

definition newline :: char where
  "newline = CHR 0x0A"

text \<open>
  \<^verbatim>\<open>for (std::size_t i = 0; i < img.size(); i++) { img[i] = pdata[i]; }\<close>
\<close>

function copy_pixels :: "(nat \<Rightarrow> Pixel) \<Rightarrow> nat \<Rightarrow> Image \<Rightarrow> error + Image" where
  "copy_pixels pdata i img =
     (if i < unat (Image_size img) then
        (case Image_index_put img i (pdata i) of
           Inl e \<Rightarrow> Inl e
         | Inr img' \<Rightarrow> copy_pixels pdata (Suc i) img')
      else Inr img)"
  by pat_completeness auto
termination
  by (relation "measure (\<lambda>(pdata, i, img). unat (Image_size img) - i)")
     (auto simp: Image_index_put_def Image_size_def split: if_splits)

declare copy_pixels.simps [simp del]

text \<open>
  \<^verbatim>\<open>Image::from_file(fname)\<close>. The call of \<^verbatim>\<open>std::filesystem::exists\<close> is not inside a
  \<^verbatim>\<open>try\<close> block, so what it throws leaves \<^verbatim>\<open>from_file\<close> at once. The two failures
  that \<^verbatim>\<open>from_file\<close> throws itself are both \<^verbatim>\<open>std::runtime_error\<close>; they differ in the
  message.
\<close>

definition Image_from_file :: "filesystem \<Rightarrow> string \<Rightarrow> (error + Image) \<times> io_call list" where
  "Image_from_file fs fname =
     (case fs_exists fs fname of
        Inl thrown \<Rightarrow> (Inl thrown, [Std_filesystem_exists fname])
      | Inr found \<Rightarrow>
          if found = False then
            (Inl (Runtime_error
                   (''ImApp::Image::from_file: File with name '' @ [dquote] @ fname @
                    [dquote] @ '' does not exist.'' @ [newline])),
             [Std_filesystem_exists fname])
          else
            (case fs_stbi_load fs fname of
               Stbi_null reason \<Rightarrow>
                 (Inl (Runtime_error
                        (''ImApp::Image::from_file: stbi_load failure.'' @ [newline] @
                         ''stbi_failure_reason: '' @ reason @ [newline])),
                  [Std_filesystem_exists fname, Stbi_load fname, Stbi_failure_reason])
             | Stbi_data img_width img_height pdata \<Rightarrow>
                 (let width = (word_of_int img_width :: uint32);
                      height = (word_of_int img_height :: uint32);
                      img = Image_new height width
                  in (copy_pixels pdata 0 img,
                      [Std_filesystem_exists fname, Stbi_load fname, Stbi_image_free]))))"

subsection \<open>The texture on the GPU\<close>

text \<open>
  The OpenGL calls of \<^verbatim>\<open>send_to_gpu\<close> and \<^verbatim>\<open>delete_from_gpu\<close>, with the arguments the
  code passes. \<open>GlGenTextures n t\<close> records that the driver wrote the name \<open>t\<close> into
  \<^verbatim>\<open>texture_id\<close>; the pixel data of \<open>GlTexImage2D\<close> is the vector behind \<^verbatim>\<open>image_.data()\<close>.
\<close>

datatype gl_enum =
  GL_TEXTURE_2D
  | GL_TEXTURE_MIN_FILTER
  | GL_TEXTURE_MAG_FILTER
  | GL_LINEAR
  | GL_UNPACK_ROW_LENGTH
  | GL_RGBA
  | GL_UNSIGNED_BYTE

datatype gl_call =
  GlGenTextures nat uint32
  | GlBindTexture gl_enum uint32
  | GlTexParameteri gl_enum gl_enum gl_enum
  | GlPixelStorei gl_enum int
  | GlTexImage2D gl_enum int gl_enum uint32 uint32 int gl_enum gl_enum "Pixel list"
  | GlDeleteTextures nat uint32

text \<open>
  The graphics context: the names the driver hands out (\<open>gl_names k\<close> answers the
  \<open>k\<close>-th request, counted from 0), whether the build has \<^verbatim>\<open>GL_UNPACK_ROW_LENGTH\<close>
  defined outside Emscripten, and the calls made so far, oldest first.
\<close>

record GL =
  gl_names :: "nat \<Rightarrow> uint32"
  gl_unpack_row_length :: bool
  gl_calls :: "gl_call list"

fun is_gen :: "gl_call \<Rightarrow> bool" where
  "is_gen (GlGenTextures n t) = True"
| "is_gen c = False"

definition gen_count :: "gl_call list \<Rightarrow> nat" where
  "gen_count cs = length (filter is_gen cs)"

text \<open>The texture names generated and not deleted since, read off the log.\<close>

fun gl_step :: "uint32 list \<Rightarrow> gl_call \<Rightarrow> uint32 list" where
  "gl_step live (GlGenTextures n t) = live @ [t]"
| "gl_step live (GlDeleteTextures n t) = removeAll t live"
| "gl_step live c = live"

definition gl_live :: "gl_call list \<Rightarrow> uint32 list" where
  "gl_live cs = foldl gl_step [] cs"

definition gl_do :: "gl_call \<Rightarrow> GL \<Rightarrow> GL" where
  "gl_do c gl = gl\<lparr>gl_calls := gl_calls gl @ [c]\<rparr>"

definition glGenTextures :: "GL \<Rightarrow> uint32 \<times> GL" where
  "glGenTextures gl =
     (let t = gl_names gl (gen_count (gl_calls gl)) in (t, gl_do (GlGenTextures 1 t) gl))"

text \<open>
  \<^verbatim>\<open>Image::send_to_gpu()\<close>: \<^verbatim>\<open>if (ogl_texture_id_)\<close> asks whether the optional holds a
  value. With a value, the texture is bound and the image uploaded again; without, a name
  is generated, bound, the two filters set, the image uploaded and the name stored.
\<close>

definition Image_send_to_gpu :: "Image \<Rightarrow> GL \<Rightarrow> Image \<times> GL" where
  "Image_send_to_gpu img gl =
     (case m_ogl_texture_id img of
        Some t \<Rightarrow>
          (let gl1 = gl_do (GlBindTexture GL_TEXTURE_2D t) gl;
               gl2 = gl_do (GlTexImage2D GL_TEXTURE_2D 0 GL_RGBA (m_width img) (m_height img) 0
                              GL_RGBA GL_UNSIGNED_BYTE (m_image img)) gl1
           in (img, gl2))
      | None \<Rightarrow>
          (let (texture_id, gl1) = glGenTextures gl;
               gl2 = gl_do (GlBindTexture GL_TEXTURE_2D texture_id) gl1;
               gl3 = gl_do (GlTexParameteri GL_TEXTURE_2D GL_TEXTURE_MIN_FILTER GL_LINEAR) gl2;
               gl4 = gl_do (GlTexParameteri GL_TEXTURE_2D GL_TEXTURE_MAG_FILTER GL_LINEAR) gl3;
               gl5 = (if gl_unpack_row_length gl4
                      then gl_do (GlPixelStorei GL_UNPACK_ROW_LENGTH 0) gl4 else gl4);
               gl6 = gl_do (GlTexImage2D GL_TEXTURE_2D 0 GL_RGBA (m_width img) (m_height img) 0
                              GL_RGBA GL_UNSIGNED_BYTE (m_image img)) gl5
           in (img\<lparr>m_ogl_texture_id := Some texture_id\<rparr>, gl6)))"

text \<open>\<^verbatim>\<open>Image::delete_from_gpu()\<close>\<close>

definition Image_delete_from_gpu :: "Image \<Rightarrow> GL \<Rightarrow> Image \<times> GL" where
  "Image_delete_from_gpu img gl =
     (case m_ogl_texture_id img of
        Some t \<Rightarrow> (img\<lparr>m_ogl_texture_id := None\<rparr>, gl_do (GlDeleteTextures 1 t) gl)
      | None \<Rightarrow> (img, gl))"

text \<open>
  \<^verbatim>\<open>~Image() { this->delete_from_gpu(); }\<close>: the object as the destructor body leaves
  it, and the graphics context.
\<close>

definition Image_destroy :: "Image \<Rightarrow> GL \<Rightarrow> Image \<times> GL" where
  "Image_destroy img gl = Image_delete_from_gpu img gl"

subsection \<open>Sequences of operations on an image\<close>

text \<open>
  What a program can do to an image it holds: resize it, write a pixel through
  \<^verbatim>\<open>operator[]\<close>, send it to the GPU, delete it from the GPU. A sequence of such
  operations runs from left to right and stops at the first one that fails.
\<close>

datatype image_op =
  Resize uint32 uint32
  | Put nat Pixel
  | Send_to_gpu
  | Delete_from_gpu

fun apply_op :: "image_op \<Rightarrow> Image \<times> GL \<Rightarrow> error + Image \<times> GL" where
  "apply_op (Resize height width) (img, gl) = Inr (Image_resize img height width, gl)"
| "apply_op (Put i p) (img, gl) =
     (case Image_index_put img i p of Inl e \<Rightarrow> Inl e | Inr img' \<Rightarrow> Inr (img', gl))"
| "apply_op Send_to_gpu (img, gl) = Inr (Image_send_to_gpu img gl)"
| "apply_op Delete_from_gpu (img, gl) = Inr (Image_delete_from_gpu img gl)"

fun apply_ops :: "image_op list \<Rightarrow> Image \<times> GL \<Rightarrow> error + Image \<times> GL" where
  "apply_ops [] s = Inr s"
| "apply_ops (x # xs) s =
     (case apply_op x s of Inl e \<Rightarrow> Inl e | Inr s' \<Rightarrow> apply_ops xs s')"

text \<open>
  The buffer of an image built by the library has as many pixels as the 32-bit product
  of its two dimensions.
\<close>

definition buffer_ok :: "Image \<Rightarrow> bool" where
  "buffer_ok img = (length (m_image img) = unat (m_height img * m_width img))"

subsection \<open>Layer and App\<close>

text \<open>
  A layer is known by a name; \<open>m_app\<close> is the pointer \<^verbatim>\<open>app_\<close>, \<open>None\<close> for
  \<^verbatim>\<open>nullptr\<close>, otherwise the address of the App. The three hooks are virtual and their
  bodies belong to the embedding program: a call of a hook is recorded with the name of
  the layer and with what \<^verbatim>\<open>app()\<close> returns during the call. The hooks are taken not to
  change the App.
\<close>

record Layer =
  layer_name :: string
  m_app :: "nat option"

text \<open>\<^verbatim>\<open>Layer() : app_(nullptr) {}\<close>\<close>

definition Layer_new :: "string \<Rightarrow> Layer" where
  "Layer_new name = \<lparr>layer_name = name, m_app = None\<rparr>"

definition Layer_app :: "Layer \<Rightarrow> nat option" where
  "Layer_app l = m_app l"

definition Layer_set_app_ptr :: "Layer \<Rightarrow> nat option \<Rightarrow> Layer" where
  "Layer_set_app_ptr l app_ptr = l\<lparr>m_app := app_ptr\<rparr>"

text \<open>What an App does that is visible outside it, in the order of the source.\<close>

datatype app_call =
  Layer_on_push string "nat option"
  | Layer_render string "nat option"
  | Layer_on_kill string "nat option"
  | Set_style_for_viewports
  | GlfwWindowShouldClose
  | GlfwPollEvents
  | ImGui_ImplOpenGL3_NewFrame
  | ImGui_ImplGlfw_NewFrame
  | ImGui_NewFrame
  | ImGui_Render
  | GlfwGetFramebufferSize
  | GlViewport
  | GlClearColor
  | GlClear
  | ImGui_ImplOpenGL3_RenderDrawData
  | GlfwGetCurrentContext
  | ImGui_UpdatePlatformWindows
  | ImGui_RenderPlatformWindowsDefault
  | GlfwMakeContextCurrent
  | GlfwSwapBuffers
  | ImGui_ImplOpenGL3_Shutdown
  | ImGui_ImplGlfw_Shutdown
  | ImPlot_DestroyContext
  | ImGui_DestroyContext
  | GlfwDestroyWindow
  | GlfwTerminate

fun is_hook :: "app_call \<Rightarrow> bool" where
  "is_hook (Layer_on_push n a) = True"
| "is_hook (Layer_render n a) = True"
| "is_hook (Layer_on_kill n a) = True"
| "is_hook c = False"

definition on_push :: "Layer \<Rightarrow> app_call" where
  "on_push l = Layer_on_push (layer_name l) (Layer_app l)"

definition render :: "Layer \<Rightarrow> app_call" where
  "render l = Layer_render (layer_name l) (Layer_app l)"

definition on_kill :: "Layer \<Rightarrow> app_call" where
  "on_kill l = Layer_on_kill (layer_name l) (Layer_app l)"

text \<open>
  The App: its own address (\<^verbatim>\<open>this\<close>), the vector \<^verbatim>\<open>layers_\<close>, and the bit
  \<^verbatim>\<open>ImGuiConfigFlags_ViewportsEnable\<close> of \<^verbatim>\<open>io_->ConfigFlags\<close>.
\<close>

record App =
  app_this :: nat
  m_layers :: "Layer list"
  viewports_enable :: bool

text \<open>
  \<^verbatim>\<open>void push_layer(std::unique_ptr<Layer> layer) {
      layers_.push_back(std::move(layer));
      layers_.back()->on_push();
      layers_.back()->set_app_ptr(this); }\<close>
\<close>

definition App_push_layer :: "App \<Rightarrow> Layer \<Rightarrow> App \<times> app_call list" where
  "App_push_layer app layer =
     (let app1 = app\<lparr>m_layers := m_layers app @ [layer]\<rparr>;
          calls = [on_push (last (m_layers app1))];
          app2 = app1\<lparr>m_layers := (m_layers app1)
                   [length (m_layers app1) - 1 :=
                      Layer_set_app_ptr (last (m_layers app1)) (Some (app_this app1))]\<rparr>
      in (app2, calls))"

text \<open>One pass through the body of the main loop of \<^verbatim>\<open>App::run()\<close>.\<close>

definition frame :: "App \<Rightarrow> app_call list" where
  "frame app =
     [GlfwPollEvents, ImGui_ImplOpenGL3_NewFrame, ImGui_ImplGlfw_NewFrame, ImGui_NewFrame] @
     map render (m_layers app) @
     [ImGui_Render, GlfwGetFramebufferSize, GlViewport, GlClearColor, GlClear,
      ImGui_ImplOpenGL3_RenderDrawData] @
     (if viewports_enable app
      then [GlfwGetCurrentContext, ImGui_UpdatePlatformWindows,
            ImGui_RenderPlatformWindowsDefault, GlfwMakeContextCurrent]
      else []) @
     [GlfwSwapBuffers]"

text \<open>
  \<^verbatim>\<open>while (!glfwWindowShouldClose(window)) { ... }\<close>: \<open>close k\<close> is the answer of the
  \<open>k\<close>-th call of \<^verbatim>\<open>glfwWindowShouldClose\<close>, counted from 0. The loop need not end;
  \<open>None\<close> is the run that never returns.
\<close>

partial_function (option) run_loop ::
    "(nat \<Rightarrow> bool) \<Rightarrow> App \<Rightarrow> nat \<Rightarrow> app_call list \<Rightarrow> app_call list option" where
  "run_loop close app k acc =
     (if close k then Some (acc @ [GlfwWindowShouldClose])
      else run_loop close app (Suc k) (acc @ GlfwWindowShouldClose # frame app))"

definition App_run :: "(nat \<Rightarrow> bool) \<Rightarrow> App \<Rightarrow> app_call list option" where
  "App_run close app =
     run_loop close app 0 (if viewports_enable app then [Set_style_for_viewports] else [])"

text \<open>
  \<^verbatim>\<open>App::~App()\<close>: the layers are killed first, then the backends, the contexts and
  the window are shut down.
\<close>

definition App_destroy :: "App \<Rightarrow> app_call list" where
  "App_destroy app =
     map on_kill (m_layers app) @
     [ImGui_ImplOpenGL3_Shutdown, ImGui_ImplGlfw_Shutdown, ImPlot_DestroyContext,
      ImGui_DestroyContext, GlfwDestroyWindow, GlfwTerminate]"

text \<open>Two layers pushed one after the other.\<close>

definition App_push_two :: "App \<Rightarrow> Layer \<Rightarrow> Layer \<Rightarrow> App" where
  "App_push_two app A B = fst (App_push_layer (fst (App_push_layer app A)) B)"

subsection \<open>Concrete inputs\<close>

text \<open>
  A graphics context whose driver hands out the names 1, 2, 3, ...; a file system with a
  path whose status cannot be determined, a missing file, a file the codec rejects and
  files that decode to an image of width 2 and height 1; an App without layers at address 1; and a 2 by 3 image whose last pixel has
  been written.
\<close>

definition gl0 :: GL where
  "gl0 = \<lparr>gl_names = (\<lambda>k. of_nat (Suc k)), gl_unpack_row_length = True, gl_calls = []\<rparr>"

definition fs0 :: filesystem where
  "fs0 = \<lparr>fs_exists =
            (\<lambda>p. if p = ''loop.png''
                 then Inl (Filesystem_error
                        ''filesystem error: status: Too many levels of symbolic links [loop.png]'')
                 else Inr (p \<noteq> ''missing.png'')),
          fs_stbi_load = (\<lambda>p. if p = ''bad.png'' then Stbi_null ''unknown image type''
                               else Stbi_data 2 1 (\<lambda>i. Pixel_rgba (of_nat i) 0 0 255))\<rparr>"

definition app0 :: App where
  "app0 = \<lparr>app_this = 1, m_layers = [], viewports_enable = False\<rparr>"

definition img23 :: Image where
  "img23 = \<lparr>m_height = 2, m_width = 3,
            m_image = [Pixel_default, Pixel_default, Pixel_default,
                       Pixel_default, Pixel_default, Pixel_rgba 1 2 3 4],
            m_ogl_texture_id = None\<rparr>"

section \<open>Properties\<close>

subsection \<open>Auxiliary facts\<close>

lemma unat_mult_32: "unat ((a::uint32) * b) = (unat a * unat b) mod 2 ^ 32"
  by (simp add: unat_word_ariths)

lemma length_vector_fill: "length (vector_fill n v) = n"
  by (simp add: vector_fill_def)

lemma length_vector_resize: "length (vector_resize d n v) = n"
  by (simp add: vector_resize_def)

lemma replicate_two: "replicate 2 x = [x, x]"
  by (simp add: numeral_2_eq_2)

lemma Image_put_fields:
  "Image_index_put img i p = Inr img' \<Longrightarrow>
     m_height img' = m_height img \<and> m_width img' = m_width img \<and>
     length (m_image img') = length (m_image img) \<and>
     m_ogl_texture_id img' = m_ogl_texture_id img"
  by (auto simp: Image_index_put_def split: if_splits)

lemma copy_pixels_fields:
  "copy_pixels pdata i img = Inr img' \<Longrightarrow>
     m_height img' = m_height img \<and> m_width img' = m_width img \<and>
     length (m_image img') = length (m_image img)"
proof (induction pdata i img rule: copy_pixels.induct)
  case (1 pdata i img)
  show ?case
  proof (cases "i < unat (Image_size img)")
    case False
    with "1.prems" show ?thesis by (simp add: copy_pixels.simps [of pdata i img])
  next
    case True
    show ?thesis
    proof (cases "Image_index_put img i (pdata i)")
      case (Inl e)
      with True "1.prems" show ?thesis by (simp add: copy_pixels.simps [of pdata i img])
    next
      case (Inr img1)
      with True "1.prems" have "copy_pixels pdata (Suc i) img1 = Inr img'"
        by (simp add: copy_pixels.simps [of pdata i img])
      with "1.IH" [OF True Inr] Image_put_fields [OF Inr] show ?thesis by simp
    qed
  qed
qed

text \<open>
  The loop of \<^verbatim>\<open>from_file\<close> stays inside the buffer and leaves the decoded pixels in
  it, so a decode that gets data from the codec returns an image.
\<close>

lemma copy_pixels_result:
  "length (m_image img) = unat (Image_size img) \<Longrightarrow>
   copy_pixels pdata i img =
     Inr (img\<lparr>m_image := take i (m_image img) @ map pdata [i..<length (m_image img)]\<rparr>)"
proof (induction pdata i img rule: copy_pixels.induct)
  case (1 pdata i img)
  let ?n = "length (m_image img)"
  show ?case
  proof (cases "i < ?n")
    case False
    with "1.prems" show ?thesis by (simp add: copy_pixels.simps [of pdata i img])
  next
    case True
    let ?img1 = "img\<lparr>m_image := (m_image img)[i := pdata i]\<rparr>"
    have put: "Image_index_put img i (pdata i) = Inr ?img1"
      using True by (simp add: Image_index_put_def)
    have lt: "i < unat (Image_size img)" using True "1.prems" by simp
    have len: "length (m_image ?img1) = unat (Image_size ?img1)"
      using "1.prems" by (simp add: Image_size_def)
    have "copy_pixels pdata i img = copy_pixels pdata (Suc i) ?img1"
      using lt put by (simp add: copy_pixels.simps [of pdata i img])
    also have "\<dots> = Inr (?img1\<lparr>m_image := take (Suc i) (m_image ?img1) @
                          map pdata [Suc i..<length (m_image ?img1)]\<rparr>)"
      by (rule "1.IH" [OF lt put len])
    also have "take (Suc i) (m_image ?img1) = take i (m_image img) @ [pdata i]"
      using True by (simp add: take_Suc_conv_app_nth)
    finally show ?thesis using True by (simp add: upt_conv_Cons)
  qed
qed

lemma Image_from_file_ok:
  assumes "fs_exists fs fname = Inr True" "fs_stbi_load fs fname = Stbi_data iw ih pdata"
  shows "fst (Image_from_file fs fname) =
           Inr \<lparr>m_height = word_of_int ih, m_width = word_of_int iw,
                m_image = map pdata [0..<unat (word_of_int ih * word_of_int iw :: uint32)],
                m_ogl_texture_id = None\<rparr>"
proof -
  let ?img = "Image_new (word_of_int ih) (word_of_int iw)"
  have "length (m_image ?img) = unat (Image_size ?img)"
    by (simp add: Image_new_def Image_size_def length_vector_fill mult.commute)
  from copy_pixels_result [OF this, of pdata 0] show ?thesis
    using assms by (simp add: Image_from_file_def Let_def Image_new_def length_vector_fill)
qed

text \<open>
  The constructor and a successful decode establish \<open>buffer_ok\<close>, and every operation
  keeps it.
\<close>

lemma buffer_ok_new: "buffer_ok (Image_new height width)"
  by (simp add: buffer_ok_def Image_new_def length_vector_fill)

lemma buffer_ok_from_file:
  assumes "fst (Image_from_file fs fname) = Inr img"
  shows "buffer_ok img"
proof -
  from assms obtain iw ih pdata where
    c: "copy_pixels pdata 0 (Image_new (word_of_int ih) (word_of_int iw)) = Inr img"
    by (auto simp: Image_from_file_def Let_def
        split: if_splits stbi_result.splits sum.splits)
  from copy_pixels_fields [OF c] show ?thesis
    by (simp add: buffer_ok_def Image_new_def length_vector_fill)
qed

lemma buffer_ok_apply_op:
  assumes "buffer_ok (fst s)" and "apply_op x s = Inr s'"
  shows "buffer_ok (fst s')"
proof (cases s)
  case (Pair img gl)
  show ?thesis
  proof (cases x)
    case (Resize height width)
    with Pair assms show ?thesis
      by (auto simp: buffer_ok_def Image_resize_def length_vector_resize)
  next
    case (Put i p)
    with Pair assms obtain img' where "Image_index_put img i p = Inr img'" "s' = (img', gl)"
      by (auto split: sum.splits)
    with Pair assms Image_put_fields [of img i p img'] show ?thesis
      by (simp add: buffer_ok_def)
  next
    case Send_to_gpu
    with Pair assms show ?thesis
      by (auto simp: buffer_ok_def Image_send_to_gpu_def Let_def
          split: option.splits prod.splits)
  next
    case Delete_from_gpu
    with Pair assms show ?thesis
      by (auto simp: buffer_ok_def Image_delete_from_gpu_def split: option.splits)
  qed
qed

lemma buffer_ok_apply_ops:
  "buffer_ok (fst s) \<Longrightarrow> apply_ops xs s = Inr s' \<Longrightarrow> buffer_ok (fst s')"
proof (induction xs arbitrary: s)
  case Nil
  then show ?case by simp
next
  case (Cons x xs)
  from Cons.prems(2) obtain s1 where
    a: "apply_op x s = Inr s1" and b: "apply_ops xs s1 = Inr s'"
    by (auto split: sum.splits)
  from buffer_ok_apply_op [OF Cons.prems(1) a] have "buffer_ok (fst s1)" .
  from Cons.IH [OF this b] show ?case .
qed

lemma linear_index_bound:
  fixes h w H W :: nat
  assumes "h < H" "w < W"
  shows "w + h * W < H * W"
proof -
  have "w + h * W < W + h * W" using assms by simp
  also have "\<dots> = Suc h * W" by simp
  also have "\<dots> \<le> H * W" using assms by (intro mult_le_mono1) simp
  finally show ?thesis .
qed

lemma gen_count_append: "gen_count (xs @ ys) = gen_count xs + gen_count ys"
  by (simp add: gen_count_def)

lemma gl_live_snoc: "gl_live (cs @ [c]) = gl_step (gl_live cs) c"
  by (simp add: gl_live_def)

lemma App_push_layer_eq:
  "App_push_layer app layer =
     (app\<lparr>m_layers := m_layers app @ [layer\<lparr>m_app := Some (app_this app)\<rparr>]\<rparr>,
      [Layer_on_push (layer_name layer) (m_app layer)])"
  by (simp add: App_push_layer_def Let_def on_push_def Layer_app_def Layer_set_app_ptr_def)

text \<open>
  The loop of \<^verbatim>\<open>run\<close> returns as soon as the window reports that it should close:
  when that is the answer to call number \<open>k + n\<close> and not before, the loop started at
  call \<open>k\<close> runs \<open>n\<close> frames.
\<close>

lemma run_loop_closes:
  "(\<forall>j<n. \<not> close (k + j)) \<Longrightarrow> close (k + n) \<Longrightarrow>
   run_loop close app k acc =
     Some (acc @ concat (replicate n (GlfwWindowShouldClose # frame app)) @
           [GlfwWindowShouldClose])"
proof (induction n arbitrary: k acc)
  case 0
  then show ?case by (subst run_loop.simps) simp
next
  case (Suc n)
  from Suc.prems(1) have nc: "\<not> close k" by force
  have a: "\<forall>j<n. \<not> close (Suc k + j)"
  proof (intro allI impI)
    fix j assume "j < n"
    then have "\<not> close (k + Suc j)" using Suc.prems(1) by blast
    then show "\<not> close (Suc k + j)" by simp
  qed
  have b: "close (Suc k + n)" using Suc.prems(2) by simp
  have "run_loop close app k acc =
        run_loop close app (Suc k) (acc @ GlfwWindowShouldClose # frame app)"
    using nc by (subst run_loop.simps) simp
  also note Suc.IH [OF a b]
  finally show ?case by simp
qed

lemma filter_hook_render: "filter is_hook (map render ls) = map render ls"
  by (induction ls) (simp_all add: render_def)

lemma filter_hook_frame: "filter is_hook (frame app) = map render (m_layers app)"
  by (simp add: frame_def filter_hook_render)

lemma m_layers_push_two:
  "m_layers (App_push_two app A B) =
     m_layers app @ [A\<lparr>m_app := Some (app_this app)\<rparr>, B\<lparr>m_app := Some (app_this app)\<rparr>]"
  by (simp add: App_push_two_def App_push_layer_eq)

subsection \<open>Upload\<close>

text \<open>
  C1. Sending an image to the GPU. Without a handle, the call generates exactly one
  texture name \<open>t\<close>, binds it, sets the two filters to linear, uploads the image with its
  width, its height and its whole pixel buffer, and stores \<open>t\<close> as the handle; nothing
  else of the image changes. With a handle \<open>t\<close>, the call binds \<open>t\<close> and uploads the
  image with its width, its height and its whole pixel buffer, generates no name and
  leaves the image, so also its handle, as it was. After the call the image is on the
  GPU, and a second call returns the handle of the first and generates nothing.
\<close>

theorem send_to_gpu_handle:
  "(m_ogl_texture_id img = None \<longrightarrow>
      m_ogl_texture_id (fst (Image_send_to_gpu img gl)) =
        Some (gl_names gl (gen_count (gl_calls gl))) \<and>
      fst (Image_send_to_gpu img gl) =
        img\<lparr>m_ogl_texture_id := Some (gl_names gl (gen_count (gl_calls gl)))\<rparr> \<and>
      gen_count (gl_calls (snd (Image_send_to_gpu img gl))) = gen_count (gl_calls gl) + 1 \<and>
      last (gl_calls (snd (Image_send_to_gpu img gl))) =
        GlTexImage2D GL_TEXTURE_2D 0 GL_RGBA (m_width img) (m_height img) 0 GL_RGBA
          GL_UNSIGNED_BYTE (m_image img) \<and>
      gl_calls (snd (Image_send_to_gpu img gl)) =
        gl_calls gl @
        [GlGenTextures 1 (gl_names gl (gen_count (gl_calls gl))),
         GlBindTexture GL_TEXTURE_2D (gl_names gl (gen_count (gl_calls gl))),
         GlTexParameteri GL_TEXTURE_2D GL_TEXTURE_MIN_FILTER GL_LINEAR,
         GlTexParameteri GL_TEXTURE_2D GL_TEXTURE_MAG_FILTER GL_LINEAR] @
        (if gl_unpack_row_length gl then [GlPixelStorei GL_UNPACK_ROW_LENGTH 0] else []) @
        [GlTexImage2D GL_TEXTURE_2D 0 GL_RGBA (m_width img) (m_height img) 0 GL_RGBA
           GL_UNSIGNED_BYTE (m_image img)]) \<and>
   (\<forall>t. m_ogl_texture_id img = Some t \<longrightarrow>
      fst (Image_send_to_gpu img gl) = img \<and>
      gl_calls (snd (Image_send_to_gpu img gl)) =
        gl_calls gl @
        [GlBindTexture GL_TEXTURE_2D t,
         GlTexImage2D GL_TEXTURE_2D 0 GL_RGBA (m_width img) (m_height img) 0 GL_RGBA
           GL_UNSIGNED_BYTE (m_image img)] \<and>
      gen_count (gl_calls (snd (Image_send_to_gpu img gl))) = gen_count (gl_calls gl)) \<and>
   Image_on_gpu (fst (Image_send_to_gpu img gl)) \<and>
   Image_ogl_texture_id (fst (Image_send_to_gpu (fst (Image_send_to_gpu img gl)) gl')) =
     Image_ogl_texture_id (fst (Image_send_to_gpu img gl)) \<and>
   gen_count (gl_calls (snd (Image_send_to_gpu (fst (Image_send_to_gpu img gl)) gl'))) =
     gen_count (gl_calls gl')"
  by (auto simp: Image_send_to_gpu_def glGenTextures_def gl_do_def Let_def gen_count_append
      gen_count_def Image_on_gpu_def Image_ogl_texture_id_def
      split: option.splits prod.splits)

theorem send_to_gpu_handle_witness:
  "m_ogl_texture_id img23 = None \<and>
   Image_ogl_texture_id (fst (Image_send_to_gpu img23 gl0)) = Some 1 \<and>
   gl_calls (snd (Image_send_to_gpu img23 gl0)) =
     [GlGenTextures 1 1, GlBindTexture GL_TEXTURE_2D 1,
      GlTexParameteri GL_TEXTURE_2D GL_TEXTURE_MIN_FILTER GL_LINEAR,
      GlTexParameteri GL_TEXTURE_2D GL_TEXTURE_MAG_FILTER GL_LINEAR,
      GlPixelStorei GL_UNPACK_ROW_LENGTH 0,
      GlTexImage2D GL_TEXTURE_2D 0 GL_RGBA 3 2 0 GL_RGBA GL_UNSIGNED_BYTE
        [Pixel_default, Pixel_default, Pixel_default,
         Pixel_default, Pixel_default, Pixel_rgba 1 2 3 4]] \<and>
   m_ogl_texture_id (img23\<lparr>m_ogl_texture_id := Some 1\<rparr>) = Some 1 \<and>
   fst (Image_send_to_gpu (img23\<lparr>m_ogl_texture_id := Some 1\<rparr>) gl0) =
     img23\<lparr>m_ogl_texture_id := Some 1\<rparr> \<and>
   gl_calls (snd (Image_send_to_gpu (img23\<lparr>m_ogl_texture_id := Some 1\<rparr>) gl0)) =
     [GlBindTexture GL_TEXTURE_2D 1,
      GlTexImage2D GL_TEXTURE_2D 0 GL_RGBA 3 2 0 GL_RGBA GL_UNSIGNED_BYTE
        [Pixel_default, Pixel_default, Pixel_default,
         Pixel_default, Pixel_default, Pixel_rgba 1 2 3 4]] \<and>
   Image_ogl_texture_id
     (fst (Image_send_to_gpu (fst (Image_send_to_gpu img23 gl0))
                             (snd (Image_send_to_gpu img23 gl0)))) = Some 1 \<and>
   gen_count (gl_calls
     (snd (Image_send_to_gpu (fst (Image_send_to_gpu img23 gl0))
                             (snd (Image_send_to_gpu img23 gl0))))) = 1"
proof -
  have first: "Image_send_to_gpu img23 gl0 =
      (img23\<lparr>m_ogl_texture_id := Some 1\<rparr>,
       gl0\<lparr>gl_calls :=
         [GlGenTextures 1 1, GlBindTexture GL_TEXTURE_2D 1,
          GlTexParameteri GL_TEXTURE_2D GL_TEXTURE_MIN_FILTER GL_LINEAR,
          GlTexParameteri GL_TEXTURE_2D GL_TEXTURE_MAG_FILTER GL_LINEAR,
          GlPixelStorei GL_UNPACK_ROW_LENGTH 0,
          GlTexImage2D GL_TEXTURE_2D 0 GL_RGBA 3 2 0 GL_RGBA GL_UNSIGNED_BYTE
            [Pixel_default, Pixel_default, Pixel_default,
             Pixel_default, Pixel_default, Pixel_rgba 1 2 3 4]]\<rparr>)"
    by (simp add: Image_send_to_gpu_def glGenTextures_def gl_do_def gen_count_def
        img23_def gl0_def)
  have h: "m_ogl_texture_id img23 = None"
    "m_ogl_texture_id (img23\<lparr>m_ogl_texture_id := Some 1\<rparr>) = Some 1"
    by (simp_all add: img23_def)
  have second: "fst (Image_send_to_gpu (img23\<lparr>m_ogl_texture_id := Some 1\<rparr>) gl0) =
      img23\<lparr>m_ogl_texture_id := Some 1\<rparr>"
    "gl_calls (snd (Image_send_to_gpu (img23\<lparr>m_ogl_texture_id := Some 1\<rparr>) gl0)) =
      gl_calls gl0 @
      [GlBindTexture GL_TEXTURE_2D 1,
       GlTexImage2D GL_TEXTURE_2D 0 GL_RGBA
         (m_width (img23\<lparr>m_ogl_texture_id := Some 1\<rparr>))
         (m_height (img23\<lparr>m_ogl_texture_id := Some 1\<rparr>)) 0 GL_RGBA GL_UNSIGNED_BYTE
         (m_image (img23\<lparr>m_ogl_texture_id := Some 1\<rparr>))]"
    using send_to_gpu_handle [of "img23\<lparr>m_ogl_texture_id := Some 1\<rparr>" gl0 gl0] h(2)
    by blast+
  have third: "Image_ogl_texture_id
      (fst (Image_send_to_gpu (fst (Image_send_to_gpu img23 gl0))
                              (snd (Image_send_to_gpu img23 gl0)))) =
      Image_ogl_texture_id (fst (Image_send_to_gpu img23 gl0))"
    "gen_count (gl_calls
      (snd (Image_send_to_gpu (fst (Image_send_to_gpu img23 gl0))
                              (snd (Image_send_to_gpu img23 gl0))))) =
      gen_count (gl_calls (snd (Image_send_to_gpu img23 gl0)))"
    using send_to_gpu_handle [of img23 gl0 "snd (Image_send_to_gpu img23 gl0)"]
    by blast+
  have "Image_ogl_texture_id (fst (Image_send_to_gpu img23 gl0)) = Some 1"
    "gl_calls (snd (Image_send_to_gpu img23 gl0)) =
     [GlGenTextures 1 1, GlBindTexture GL_TEXTURE_2D 1,
      GlTexParameteri GL_TEXTURE_2D GL_TEXTURE_MIN_FILTER GL_LINEAR,
      GlTexParameteri GL_TEXTURE_2D GL_TEXTURE_MAG_FILTER GL_LINEAR,
      GlPixelStorei GL_UNPACK_ROW_LENGTH 0,
      GlTexImage2D GL_TEXTURE_2D 0 GL_RGBA 3 2 0 GL_RGBA GL_UNSIGNED_BYTE
        [Pixel_default, Pixel_default, Pixel_default,
         Pixel_default, Pixel_default, Pixel_rgba 1 2 3 4]]"
    "gen_count (gl_calls (snd (Image_send_to_gpu img23 gl0))) = 1"
    by (simp_all add: first Image_ogl_texture_id_def gen_count_def)
  moreover have "gl_calls (snd (Image_send_to_gpu (img23\<lparr>m_ogl_texture_id := Some 1\<rparr>) gl0)) =
     [GlBindTexture GL_TEXTURE_2D 1,
      GlTexImage2D GL_TEXTURE_2D 0 GL_RGBA 3 2 0 GL_RGBA GL_UNSIGNED_BYTE
        [Pixel_default, Pixel_default, Pixel_default,
         Pixel_default, Pixel_default, Pixel_rgba 1 2 3 4]]"
    unfolding second(2) by (simp add: img23_def gl0_def)
  ultimately show ?thesis
    using h second(1) third by simp
qed


subsection \<open>Release and destruction\<close>

text \<open>
  C2. Deleting an image from the GPU. With a handle \<open>t\<close>, the call deletes the texture
  \<open>t\<close> and clears the handle, and \<open>t\<close> is no longer among the live textures. Without
  a handle, and so for an image that was never sent, the call changes neither the image
  nor the graphics context. The destructor is this call: after it the image has no handle,
  also when it had been sent to the GPU before.
\<close>

theorem delete_from_gpu_release:
  "(\<forall>t. m_ogl_texture_id img = Some t \<longrightarrow>
      Image_delete_from_gpu img gl =
        (img\<lparr>m_ogl_texture_id := None\<rparr>, gl_do (GlDeleteTextures 1 t) gl) \<and>
      t \<notin> set (gl_live (gl_calls (snd (Image_delete_from_gpu img gl))))) \<and>
   (m_ogl_texture_id img = None \<longrightarrow> Image_delete_from_gpu img gl = (img, gl)) \<and>
   Image_delete_from_gpu (Image_new height width) gl = (Image_new height width, gl) \<and>
   Image_destroy img gl = Image_delete_from_gpu img gl \<and>
   \<not> Image_on_gpu (fst (Image_destroy img gl)) \<and>
   \<not> Image_on_gpu (fst (Image_destroy (fst (Image_send_to_gpu img gl)) gl'))"
  by (auto simp: Image_delete_from_gpu_def Image_destroy_def Image_on_gpu_def gl_do_def
      gl_live_snoc Image_new_def split: option.splits)

theorem delete_from_gpu_release_witness:
  "m_ogl_texture_id (fst (Image_send_to_gpu (Image_new 1 1) gl0)) = Some 1 \<and>
   m_ogl_texture_id (Image_new 1 1) = None \<and>
   Image_delete_from_gpu (Image_new 1 1) gl0 = (Image_new 1 1, gl0) \<and>
   m_ogl_texture_id (fst (Image_delete_from_gpu (fst (Image_send_to_gpu (Image_new 1 1) gl0))
                            (snd (Image_send_to_gpu (Image_new 1 1) gl0)))) = None \<and>
   gl_live (gl_calls (snd (Image_send_to_gpu (Image_new 1 1) gl0))) = [1] \<and>
   gl_live (gl_calls (snd (Image_delete_from_gpu (fst (Image_send_to_gpu (Image_new 1 1) gl0))
                            (snd (Image_send_to_gpu (Image_new 1 1) gl0))))) = []"
proof -
  have s: "Image_send_to_gpu (Image_new 1 1) gl0 =
             ((Image_new 1 1)\<lparr>m_ogl_texture_id := Some 1\<rparr>,
              gl0\<lparr>gl_calls := [GlGenTextures 1 1, GlBindTexture GL_TEXTURE_2D 1,
                      GlTexParameteri GL_TEXTURE_2D GL_TEXTURE_MIN_FILTER GL_LINEAR,
                      GlTexParameteri GL_TEXTURE_2D GL_TEXTURE_MAG_FILTER GL_LINEAR,
                      GlPixelStorei GL_UNPACK_ROW_LENGTH 0,
                      GlTexImage2D GL_TEXTURE_2D 0 GL_RGBA 1 1 0 GL_RGBA GL_UNSIGNED_BYTE
                        (m_image (Image_new 1 1))]\<rparr>)"
    by (simp add: Image_send_to_gpu_def Image_new_def gl0_def glGenTextures_def gl_do_def
        gen_count_def)
  have n: "m_ogl_texture_id (Image_new 1 1) = None" by (simp add: Image_new_def)
  from delete_from_gpu_release [of "fst (Image_send_to_gpu (Image_new 1 1) gl0)"
      "snd (Image_send_to_gpu (Image_new 1 1) gl0)" 1 1 gl0]
    delete_from_gpu_release [of "Image_new 1 1" gl0 1 1 gl0]
  show ?thesis using n
    by (simp add: s gl_do_def gl_live_def)
qed

subsection \<open>Resize\<close>

text \<open>
  C3, as stated, fails: the cell that a growing resize adds is built by the default
  constructor of Pixel and is opaque white. Here a 1 by 1 image holding a black pixel is
  resized to 1 by 2.
\<close>

theorem resize_counterexample:
  "m_image (Image_resize \<lparr>m_height = 1, m_width = 1, m_image = [Pixel_rgba 0 0 0 255],
                           m_ogl_texture_id = None\<rparr> 1 2) =
     [Pixel_rgba 0 0 0 255, \<lparr>m_r = 255, m_g = 255, m_b = 255, m_a = 255\<rparr>]"
  by (simp add: Image_resize_def vector_resize_def Pixel_default_def)

text \<open>
  C3, amended. A resize that grows the buffer appends the new cells at the end of the
  storage, each of them opaque white (255,255,255,255); every resize leaves the pixels
  at the surviving linear indices as they were, and sets the two dimensions.
\<close>

theorem resize_appends_white:
  "(length (m_image img) \<le> unat (height * width) \<longrightarrow>
      m_image (Image_resize img height width) =
        m_image img @ replicate (unat (height * width) - length (m_image img))
                        \<lparr>m_r = 255, m_g = 255, m_b = 255, m_a = 255\<rparr>) \<and>
   (\<forall>i. i < length (m_image img) \<and> i < unat (height * width) \<longrightarrow>
      m_image (Image_resize img height width) ! i = m_image img ! i) \<and>
   m_height (Image_resize img height width) = height \<and>
   m_width (Image_resize img height width) = width"
  by (auto simp: Image_resize_def vector_resize_def Pixel_default_def nth_append)

theorem resize_appends_white_witness:
  "length (m_image \<lparr>m_height = 1, m_width = 2,
                     m_image = [Pixel_rgba 0 0 0 255, Pixel_rgba 9 9 9 9],
                     m_ogl_texture_id = None\<rparr>) \<le> unat ((2::uint32) * 2) \<and>
   m_image (Image_resize \<lparr>m_height = 1, m_width = 2,
                     m_image = [Pixel_rgba 0 0 0 255, Pixel_rgba 9 9 9 9],
                     m_ogl_texture_id = None\<rparr> 2 2) =
     [Pixel_rgba 0 0 0 255, Pixel_rgba 9 9 9 9,
      \<lparr>m_r = 255, m_g = 255, m_b = 255, m_a = 255\<rparr>,
      \<lparr>m_r = 255, m_g = 255, m_b = 255, m_a = 255\<rparr>]"
  using resize_appends_white [of "\<lparr>m_height = 1, m_width = 2,
                     m_image = [Pixel_rgba 0 0 0 255, Pixel_rgba 9 9 9 9],
                     m_ogl_texture_id = None\<rparr>" 2 2]
    replicate_two [of "\<lparr>m_r = 255, m_g = 255, m_b = 255, m_a = 255\<rparr>"]
  by simp

subsection \<open>The length of the buffer\<close>

text \<open>
  C4, as stated, fails: an image constructed with height 65536 and width 65536 has an
  empty buffer, not one of 65536 * 65536 pixels.
\<close>

theorem buffer_length_counterexample:
  "length (m_image (Image_new 65536 65536)) = 0 \<and>
   unat (m_height (Image_new 65536 65536)) * unat (m_width (Image_new 65536 65536)) =
     4294967296 \<and>
   length (m_image (Image_new 65536 65536)) \<noteq>
     unat (m_height (Image_new 65536 65536)) * unat (m_width (Image_new 65536 65536))"
  by (simp add: Image_new_def vector_fill_def)

text \<open>
  C4, amended. Start from an image built by the constructor or decoded from a file and
  run any sequence of operations on it: the buffer then has
  \<open>(height * width) mod 2^32\<close> pixels; that is \<open>height * width\<close> whenever the product
  is below \<open>2^32\<close>.
\<close>

theorem buffer_length_mod:
  assumes "img0 = Image_new height width \<or> fst (Image_from_file fs fname) = Inr img0"
    and "apply_ops ops (img0, gl) = Inr (img, gl')"
  shows "length (m_image img) = (unat (m_height img) * unat (m_width img)) mod 2 ^ 32 \<and>
         (unat (m_height img) * unat (m_width img) < 2 ^ 32 \<longrightarrow>
            length (m_image img) = unat (m_height img) * unat (m_width img))"
proof -
  from assms(1) have "buffer_ok (fst (img0, gl))"
    using buffer_ok_new buffer_ok_from_file by auto
  from buffer_ok_apply_ops [OF this assms(2)] show ?thesis
    by (simp add: buffer_ok_def unat_mult_32)
qed

theorem buffer_length_mod_witness:
  "apply_ops [Resize 2 2, Send_to_gpu, Put 3 (Pixel_rgba 1 2 3 4), Delete_from_gpu]
     (Image_new 1 1, gl0) =
     Inr (\<lparr>m_height = 2, m_width = 2,
           m_image = [Pixel_default, Pixel_default, Pixel_default, Pixel_rgba 1 2 3 4],
           m_ogl_texture_id = None\<rparr>,
          gl0\<lparr>gl_calls :=
            [GlGenTextures 1 1, GlBindTexture GL_TEXTURE_2D 1,
             GlTexParameteri GL_TEXTURE_2D GL_TEXTURE_MIN_FILTER GL_LINEAR,
             GlTexParameteri GL_TEXTURE_2D GL_TEXTURE_MAG_FILTER GL_LINEAR,
             GlPixelStorei GL_UNPACK_ROW_LENGTH 0,
             GlTexImage2D GL_TEXTURE_2D 0 GL_RGBA 2 2 0 GL_RGBA GL_UNSIGNED_BYTE
               [Pixel_default, Pixel_default, Pixel_default, Pixel_default],
             GlDeleteTextures 1 1]\<rparr>) \<and>
   fst (Image_from_file fs0 ''ok.png'') =
     Inr \<lparr>m_height = 1, m_width = 2,
          m_image = [Pixel_rgba 0 0 0 255, Pixel_rgba 1 0 0 255],
          m_ogl_texture_id = None\<rparr> \<and>
   apply_ops [Resize 1 3]
     (\<lparr>m_height = 1, m_width = 2,
       m_image = [Pixel_rgba 0 0 0 255, Pixel_rgba 1 0 0 255],
       m_ogl_texture_id = None\<rparr>, gl0) =
     Inr (\<lparr>m_height = 1, m_width = 3,
           m_image = [Pixel_rgba 0 0 0 255, Pixel_rgba 1 0 0 255, Pixel_default],
           m_ogl_texture_id = None\<rparr>, gl0)"
proof -
  have a: "apply_ops [Resize 2 2, Send_to_gpu, Put 3 (Pixel_rgba 1 2 3 4), Delete_from_gpu]
     (Image_new 1 1, gl0) =
     Inr (\<lparr>m_height = 2, m_width = 2,
           m_image = [Pixel_default, Pixel_default, Pixel_default, Pixel_rgba 1 2 3 4],
           m_ogl_texture_id = None\<rparr>,
          gl0\<lparr>gl_calls :=
            [GlGenTextures 1 1, GlBindTexture GL_TEXTURE_2D 1,
             GlTexParameteri GL_TEXTURE_2D GL_TEXTURE_MIN_FILTER GL_LINEAR,
             GlTexParameteri GL_TEXTURE_2D GL_TEXTURE_MAG_FILTER GL_LINEAR,
             GlPixelStorei GL_UNPACK_ROW_LENGTH 0,
             GlTexImage2D GL_TEXTURE_2D 0 GL_RGBA 2 2 0 GL_RGBA GL_UNSIGNED_BYTE
               [Pixel_default, Pixel_default, Pixel_default, Pixel_default],
             GlDeleteTextures 1 1]\<rparr>)"
    by (simp add: Image_new_def gl0_def Image_resize_def vector_resize_def vector_fill_def
        Image_send_to_gpu_def glGenTextures_def gl_do_def gen_count_def
        Image_index_put_def Image_delete_from_gpu_def numeral_3_eq_3)
  have b: "fst (Image_from_file fs0 ''ok.png'') =
     Inr \<lparr>m_height = 1, m_width = 2,
          m_image = [Pixel_rgba 0 0 0 255, Pixel_rgba 1 0 0 255],
          m_ogl_texture_id = None\<rparr>"
    by code_simp
  have c: "apply_ops [Resize 1 3]
     (\<lparr>m_height = 1, m_width = 2,
       m_image = [Pixel_rgba 0 0 0 255, Pixel_rgba 1 0 0 255],
       m_ogl_texture_id = None\<rparr>, gl0) =
     Inr (\<lparr>m_height = 1, m_width = 3,
           m_image = [Pixel_rgba 0 0 0 255, Pixel_rgba 1 0 0 255, Pixel_default],
           m_ogl_texture_id = None\<rparr>, gl0)"
    by (simp add: Image_resize_def vector_resize_def)
  from buffer_length_mod [OF disjI1 [OF refl] a]
    buffer_length_mod [OF disjI2 [OF b] c]
  show ?thesis using a b c by simp
qed

subsection \<open>Checked access\<close>

text \<open>
  C5. \<open>at(row, column)\<close> is to fail with an out-of-range exception when the row or the
  column is outside the image and, for valid coordinates, to return the pixel at linear
  index \<open>column + row * width\<close> without failing. The code does not do the latter for an
  image whose 32-bit product of the dimensions has wrapped. In the image constructed with
  height 65536 and width 65536 the buffer is empty; the coordinates (0, 0) pass both
  checks and the read is beyond the end of the buffer. In the image constructed with
  height 65536 and width 65537 the buffer has 65536 pixels; the coordinates (1, 0) pass
  both checks and the read at index 65537 is beyond the end of the buffer.
\<close>

theorem Image_at_wrapped_buffer:
  "(0::uint32) < m_height (Image_new 65536 65536) \<and>
   (0::uint32) < m_width (Image_new 65536 65536) \<and>
   length (m_image (Image_new 65536 65536)) = 0 \<and>
   Image_at (Image_new 65536 65536) 0 0 = Inl Undefined_behaviour \<and>
   (1::uint32) < m_height (Image_new 65536 65537) \<and>
   (0::uint32) < m_width (Image_new 65536 65537) \<and>
   length (m_image (Image_new 65536 65537)) = 65536 \<and>
   Image_at (Image_new 65536 65537) 1 0 = Inl Undefined_behaviour"
proof -
  have "\<not> (65536::uint32) \<le> 1" "(1::uint32) < 65536"
    by (simp_all add: word_le_nat_alt word_less_nat_alt)
  then show ?thesis
    by (simp add: Image_at_def Image_new_def vector_fill_def vector_index_def)
qed

text \<open>
  Where the product of the dimensions is below \<open>2^32\<close>, \<open>at\<close> does what its comment
  says: it fails with an out-of-range exception whenever \<open>row \<ge> height\<close> or
  \<open>column \<ge> width\<close> (this half holds for every image), and for an image built by the
  library (\<open>buffer_ok\<close>) and valid coordinates it returns the pixel at linear index
  \<open>column + row * width\<close>, which is inside the buffer.
\<close>

theorem Image_at_checked:
  "(h \<ge> m_height img \<or> w \<ge> m_width img \<longrightarrow>
      (\<exists>msg. Image_at img h w = Inl (Out_of_range msg))) \<and>
   (buffer_ok img \<and> unat (m_height img) * unat (m_width img) < 2 ^ 32 \<and>
    h < m_height img \<and> w < m_width img \<longrightarrow>
      unat w + unat h * unat (m_width img) < length (m_image img) \<and>
      Image_at img h w = Inr (m_image img ! (unat w + unat h * unat (m_width img))))"
proof (intro conjI impI)
  assume "h \<ge> m_height img \<or> w \<ge> m_width img"
  then show "\<exists>msg. Image_at img h w = Inl (Out_of_range msg)"
    by (auto simp: Image_at_def)
next
  assume a: "buffer_ok img \<and> unat (m_height img) * unat (m_width img) < 2 ^ 32 \<and>
    h < m_height img \<and> w < m_width img"
  then have len: "length (m_image img) = unat (m_height img) * unat (m_width img)"
    by (simp add: buffer_ok_def unat_mult_32)
  have lt: "unat w + unat h * unat (m_width img) < unat (m_height img) * unat (m_width img)"
    using a by (intro linear_index_bound) (simp_all add: word_less_nat_alt)
  with len show "unat w + unat h * unat (m_width img) < length (m_image img)" by simp
  have "unat (w + h * m_width img) = unat w + unat h * unat (m_width img)"
    using lt a by (simp add: unat_word_ariths)
  then show "Image_at img h w = Inr (m_image img ! (unat w + unat h * unat (m_width img)))"
    using a lt len by (simp add: Image_at_def vector_index_def not_le)
qed

theorem Image_at_checked_witness:
  "buffer_ok img23 \<and> unat (m_height img23) * unat (m_width img23) < 2 ^ 32 \<and>
   1 < m_height img23 \<and> 2 < m_width img23 \<and>
   Image_at img23 1 2 = Inr (Pixel_rgba 1 2 3 4) \<and>
   2 \<ge> m_height img23 \<and>
   Image_at img23 2 0 = Inl (Out_of_range ''ImApp::Image::at: h must be < height.'')"
proof -
  have r: "buffer_ok img23"
    by (simp add: buffer_ok_def img23_def)
  have e: "\<exists>msg. Image_at img23 2 0 = Inl (Out_of_range msg)"
    using Image_at_checked [of img23 2 0] by (simp add: img23_def)
  have "Image_at img23 1 2 = Inr (m_image img23 ! (unat (2::uint32) + unat (1::uint32) * unat (m_width img23)))"
    using Image_at_checked [of img23 1 2] r by (simp add: img23_def)
  then show ?thesis using r e
    by (simp add: img23_def Image_at_def)
qed

subsection \<open>Decode failures\<close>

text \<open>
  C6, as stated, fails: for a path whose status cannot be determined, here one that runs
  into a loop of symbolic links, the path does not resolve to an existing file, and
  \<open>from_file\<close> fails with the filesystem error of the existence check, not with the
  not-found error.
\<close>

theorem from_file_counterexample:
  "fs_exists fs0 ''loop.png'' \<noteq> Inr True \<and>
   Image_from_file fs0 ''loop.png'' =
     (Inl (Filesystem_error
        ''filesystem error: status: Too many levels of symbolic links [loop.png]''),
      [Std_filesystem_exists ''loop.png'']) \<and>
   fst (Image_from_file fs0 ''loop.png'') \<noteq>
     Inl (Runtime_error (''ImApp::Image::from_file: File with name '' @ [dquote] @
                          ''loop.png'' @ [dquote] @ '' does not exist.'' @ [newline]))"
  by (simp add: Image_from_file_def fs0_def)

text \<open>
  C6, amended. When the existence check reports that the path does not exist, decoding
  throws the runtime error whose message says that the file does not exist. When the
  existence check itself throws, that exception leaves \<open>from_file\<close> unchanged. In both
  cases, that is whenever the existence check does not report an existing file, the only
  call made outside the library is the existence check: the codec is not invoked.
  Decoding an existing file for which the codec returns no data throws the runtime error
  whose message carries the failure reason of the codec.
\<close>

theorem from_file_errors:
  "(fs_exists fs fname = Inr False \<longrightarrow>
      Image_from_file fs fname =
        (Inl (Runtime_error (''ImApp::Image::from_file: File with name '' @ [dquote] @ fname @
                              [dquote] @ '' does not exist.'' @ [newline])),
         [Std_filesystem_exists fname])) \<and>
   (\<forall>thrown. fs_exists fs fname = Inl thrown \<longrightarrow>
      Image_from_file fs fname = (Inl thrown, [Std_filesystem_exists fname])) \<and>
   (fs_exists fs fname \<noteq> Inr True \<longrightarrow>
      (\<exists>e. fst (Image_from_file fs fname) = Inl e) \<and>
      snd (Image_from_file fs fname) = [Std_filesystem_exists fname] \<and>
      (\<forall>p. Stbi_load p \<notin> set (snd (Image_from_file fs fname)))) \<and>
   (fs_exists fs fname = Inr True \<and> fs_stbi_load fs fname = Stbi_null reason \<longrightarrow>
      Image_from_file fs fname =
        (Inl (Runtime_error (''ImApp::Image::from_file: stbi_load failure.'' @ [newline] @
                              ''stbi_failure_reason: '' @ reason @ [newline])),
         [Std_filesystem_exists fname, Stbi_load fname, Stbi_failure_reason]))"
  by (auto simp: Image_from_file_def split: sum.splits)

theorem from_file_errors_witness:
  "fs_exists fs0 ''missing.png'' = Inr False \<and>
   Image_from_file fs0 ''missing.png'' =
     (Inl (Runtime_error (''ImApp::Image::from_file: File with name '' @ [dquote] @
                           ''missing.png'' @ [dquote] @ '' does not exist.'' @ [newline])),
      [Std_filesystem_exists ''missing.png'']) \<and>
   fs_exists fs0 ''loop.png'' =
     Inl (Filesystem_error
       ''filesystem error: status: Too many levels of symbolic links [loop.png]'') \<and>
   snd (Image_from_file fs0 ''loop.png'') = [Std_filesystem_exists ''loop.png''] \<and>
   fs_exists fs0 ''bad.png'' = Inr True \<and>
   fs_stbi_load fs0 ''bad.png'' = Stbi_null ''unknown image type'' \<and>
   Image_from_file fs0 ''bad.png'' =
     (Inl (Runtime_error (''ImApp::Image::from_file: stbi_load failure.'' @ [newline] @
                           ''stbi_failure_reason: unknown image type'' @ [newline])),
      [Std_filesystem_exists ''bad.png'', Stbi_load ''bad.png'', Stbi_failure_reason])"
  using from_file_errors [of fs0 "''missing.png''"]
    from_file_errors [of fs0 "''loop.png''"]
    from_file_errors [of fs0 "''bad.png''" "''unknown image type''"]
  by (simp add: fs0_def)

subsection \<open>Pushing a layer\<close>



subsection \<open>Dispatch order\<close>

text \<open>
  C8. After A and then B have been pushed, the hook calls of a frame are the render hooks
  of the layers in push order, A before B. When the window first reports that it should
  close at call \<open>n\<close>, \<open>run\<close> returns after exactly \<open>n\<close> such frames. The
  destructor calls \<open>on_kill\<close> on the layers in push order, A before B, and only then
  shuts down the backends, destroys the contexts and the window.
\<close>

theorem hooks_in_push_order:
  assumes "\<forall>j<n. \<not> close j" and "close n"
  shows "filter is_hook (frame (App_push_two app A B)) =
           map render (m_layers app) @
           [Layer_render (layer_name A) (Some (app_this app)),
            Layer_render (layer_name B) (Some (app_this app))] \<and>
         App_run close (App_push_two app A B) =
           Some ((if viewports_enable app then [Set_style_for_viewports] else []) @
                 concat (replicate n (GlfwWindowShouldClose # frame (App_push_two app A B))) @
                 [GlfwWindowShouldClose]) \<and>
         App_destroy (App_push_two app A B) =
           map on_kill (m_layers app) @
           [Layer_on_kill (layer_name A) (Some (app_this app)),
            Layer_on_kill (layer_name B) (Some (app_this app)),
            ImGui_ImplOpenGL3_Shutdown, ImGui_ImplGlfw_Shutdown, ImPlot_DestroyContext,
            ImGui_DestroyContext, GlfwDestroyWindow, GlfwTerminate]"
proof -
  have v: "viewports_enable (App_push_two app A B) = viewports_enable app"
    by (simp add: App_push_two_def App_push_layer_eq)
  have "run_loop close (App_push_two app A B) 0 acc =
     Some (acc @ concat (replicate n (GlfwWindowShouldClose # frame (App_push_two app A B))) @
           [GlfwWindowShouldClose])" for acc
    using assms by (intro run_loop_closes) simp_all
  then show ?thesis
    by (simp add: filter_hook_frame m_layers_push_two App_run_def App_destroy_def v
        render_def on_kill_def Layer_app_def)
qed

theorem hooks_in_push_order_witness:
  "App_run (\<lambda>k. 0 < k) (App_push_two app0 (Layer_new ''A'') (Layer_new ''B'')) =
     Some [GlfwWindowShouldClose,
           GlfwPollEvents, ImGui_ImplOpenGL3_NewFrame, ImGui_ImplGlfw_NewFrame, ImGui_NewFrame,
           Layer_render ''A'' (Some 1), Layer_render ''B'' (Some 1),
           ImGui_Render, GlfwGetFramebufferSize, GlViewport, GlClearColor, GlClear,
           ImGui_ImplOpenGL3_RenderDrawData, GlfwSwapBuffers,
           GlfwWindowShouldClose] \<and>
   App_destroy (App_push_two app0 (Layer_new ''A'') (Layer_new ''B'')) =
     [Layer_on_kill ''A'' (Some 1), Layer_on_kill ''B'' (Some 1),
      ImGui_ImplOpenGL3_Shutdown, ImGui_ImplGlfw_Shutdown, ImPlot_DestroyContext,
      ImGui_DestroyContext, GlfwDestroyWindow, GlfwTerminate]"
proof -
  have a: "app_this app0 = 1" "m_layers app0 = []" "viewports_enable app0 = False"
    "layer_name (Layer_new ''A'') = ''A''" "layer_name (Layer_new ''B'') = ''B''"
    by (simp_all add: app0_def Layer_new_def)
  have h1: "\<forall>j<Suc 0. \<not> (0 < j)" by simp
  have h2: "0 < Suc 0" by simp
  have l: "m_layers (App_push_two app0 (Layer_new ''A'') (Layer_new ''B'')) =
           [\<lparr>layer_name = ''A'', m_app = Some 1\<rparr>, \<lparr>layer_name = ''B'', m_app = Some 1\<rparr>]"
    by (simp add: m_layers_push_two app0_def Layer_new_def)
  have v: "viewports_enable (App_push_two app0 (Layer_new ''A'') (Layer_new ''B'')) = False"
    by (simp add: App_push_two_def App_push_layer_eq app0_def)
  from hooks_in_push_order [of "Suc 0" "\<lambda>k. 0 < k", OF h1 h2, of app0 "Layer_new ''A''" "Layer_new ''B''"]
  show ?thesis
    by (simp add: frame_def l v a render_def Layer_app_def)
qed

subsection \<open>Construction\<close>

text \<open>
  C9. For dimensions whose product fits in 32 bits, a newly constructed image has exactly
  \<open>height * width\<close> pixels, each of them opaque white (255,255,255,255).
\<close>

theorem Image_new_white:
  assumes "unat height * unat width < 2 ^ 32"
  shows "length (m_image (Image_new height width)) = unat height * unat width \<and>
         (\<forall>i < unat height * unat width.
            m_image (Image_new height width) ! i = \<lparr>m_r = 255, m_g = 255, m_b = 255, m_a = 255\<rparr>)"
  using assms by (simp add: Image_new_def vector_fill_def unat_mult_32 Pixel_default_def)

theorem Image_new_white_witness:
  "unat (2::uint32) * unat (3::uint32) < 2 ^ 32 \<and>
   length (m_image (Image_new 2 3)) = 6 \<and>
   m_image (Image_new 2 3) ! 5 = \<lparr>m_r = 255, m_g = 255, m_b = 255, m_a = 255\<rparr>"
  using Image_new_white [of 2 3] by simp

subsection \<open>The size in 32 bits\<close>

text \<open>
  C10. \<open>size()\<close> is \<open>width * height\<close> in 32-bit unsigned arithmetic, that is
  \<open>(width * height) mod 2^32\<close>, and the constructor allocates
  \<open>(height * width) mod 2^32\<close> pixels: fewer than \<open>height * width\<close> when the
  product is \<open>2^32\<close> or more.
\<close>

theorem Image_size_wraps:
  "unat (Image_size img) = (unat (m_width img) * unat (m_height img)) mod 2 ^ 32 \<and>
   length (m_image (Image_new height width)) = (unat height * unat width) mod 2 ^ 32 \<and>
   unat (Image_size (Image_new height width)) = length (m_image (Image_new height width)) \<and>
   (2 ^ 32 \<le> unat height * unat width \<longrightarrow>
      length (m_image (Image_new height width)) < unat height * unat width)"
proof -
  have "(unat height * unat width) mod 2 ^ 32 < (2 ^ 32 :: nat)" by simp
  then have "2 ^ 32 \<le> unat height * unat width \<longrightarrow>
      (unat height * unat width) mod 2 ^ 32 < unat height * unat width"
    by linarith
  then show ?thesis
    by (simp add: Image_size_def Image_new_def length_vector_fill unat_mult_32 mult.commute)
qed

theorem Image_size_wraps_witness:
  "(2::nat) ^ 32 \<le> unat (65536::uint32) * unat (65537::uint32) \<and>
   length (m_image (Image_new 65536 65537)) = 65536 \<and>
   unat (Image_size (Image_new 65536 65537)) = 65536"
  using Image_size_wraps [of "Image_new 65536 65537" 65536 65537] by simp

end
